theory Spec2Isabelle
  imports Main
begin

section \<open>Python values and built-ins used by \<^verbatim>\<open>core/join_handle.py\<close>\<close>

text \<open>
  A Python \<^verbatim>\<open>str\<close> is modelled by its UTF-8 encoding, a \<^typ>\<open>string\<close>: equality, the
  prefix test and the substring test \<^verbatim>\<open>in\<close> agree on both views (UTF-8 is
  self-synchronising). The Chinese literals of the source are therefore byte lists.

  The string methods that read Unicode tables (\<^verbatim>\<open>str.lower\<close>, \<^verbatim>\<open>str.isdigit\<close>,
  \<^verbatim>\<open>str.strip\<close>, \<^verbatim>\<open>str.split\<close>) are not defined here: they are the fields of a record
  \<open>python\<close> that every function using them takes as its first argument. A theorem about
  such a function holds for every value of that record, so also for the methods of the
  interpreter that runs the plugin.

  An exception is a value of type \<open>error\<close>; a function that can raise returns
  \<open>error + 'a\<close> with \<open>Inl\<close> for the exception.
\<close>

datatype error = AttributeError | TypeError | PlatformError

record python =
  str_lower :: "string \<Rightarrow> string"
  str_isdigit :: "string \<Rightarrow> bool"
  str_strip :: "string \<Rightarrow> string"
  str_split :: "string \<Rightarrow> string list"

definition err_bind :: "error + 'a \<Rightarrow> ('a \<Rightarrow> error + 'b) \<Rightarrow> error + 'b" where
  "err_bind m f = (case m of Inl e \<Rightarrow> Inl e | Inr x \<Rightarrow> f x)"

text \<open>Truthiness of an optional string and of an optional integer (\<^verbatim>\<open>if comment:\<close>).\<close>

definition truthy_str :: "string option \<Rightarrow> bool" where
  "truthy_str c = (case c of None \<Rightarrow> False | Some s \<Rightarrow> s \<noteq> [])"

definition truthy_int :: "int option \<Rightarrow> bool" where
  "truthy_int l = (case l of None \<Rightarrow> False | Some n \<Rightarrow> n \<noteq> 0)"

text \<open>\<^verbatim>\<open>a < b\<close> where \<^verbatim>\<open>a\<close> may be \<^verbatim>\<open>None\<close>: Python raises TypeError.\<close>

definition py_lt :: "int option \<Rightarrow> int \<Rightarrow> error + bool" where
  "py_lt a b = (case a of None \<Rightarrow> Inl TypeError | Some n \<Rightarrow> Inr (n < b))"

text \<open>\<^verbatim>\<open>c.lower()\<close> where \<^verbatim>\<open>c\<close> may be \<^verbatim>\<open>None\<close>: Python raises AttributeError.\<close>

definition py_lower :: "python \<Rightarrow> string option \<Rightarrow> error + string" where
  "py_lower py c = (case c of None \<Rightarrow> Inl AttributeError | Some s \<Rightarrow> Inr (str_lower py s))"

text \<open>\<^verbatim>\<open>s.startswith(p)\<close> and the substring test \<^verbatim>\<open>sub in s\<close>.\<close>

fun startswith :: "string \<Rightarrow> string \<Rightarrow> bool" where
  "startswith s [] = True"
| "startswith [] (p # ps) = False"
| "startswith (c # cs) (p # ps) = (c = p \<and> startswith cs ps)"

fun str_in :: "string \<Rightarrow> string \<Rightarrow> bool" where
  "str_in sub [] = (sub = [])"
| "str_in sub (c # cs) = (startswith (c # cs) sub \<or> str_in sub cs)"

text \<open>Decimal rendering of an integer, as \<^verbatim>\<open>str(n)\<close> and an f-string field do.\<close>

definition digit_char :: "nat \<Rightarrow> char" where
  "digit_char n = ''0123456789'' ! (n mod 10)"

fun str_nat :: "nat \<Rightarrow> string" where
  "str_nat n = (if n < 10 then [digit_char n] else str_nat (n div 10) @ [digit_char n])"

declare str_nat.simps [simp del]

definition str_int :: "int \<Rightarrow> string" where
  "str_int i = (if i < 0 then CHR ''-'' # str_nat (nat (- i)) else str_nat (nat i))"

definition format_int :: "int option \<Rightarrow> string" where
  "format_int l = (case l of None \<Rightarrow> ''None'' | Some n \<Rightarrow> str_int n)"

text \<open>
  A user id. \<^verbatim>\<open>should_approve\<close> and the command handlers are written for a \<^verbatim>\<open>str\<close>;
  \<^verbatim>\<open>event_monitoring\<close> passes on \<^verbatim>\<open>raw.get("user_id", "")\<close> as it is, an \<^verbatim>\<open>int\<close> in the
  events of the platform. An id of one kind is never equal to an id of the other, as in
  Python; \<open>str_id\<close> is \<^verbatim>\<open>str(user_id)\<close>, which an f-string field prints.
\<close>

datatype pyid = IdInt int | IdStr string

definition str_id :: "pyid \<Rightarrow> string" where
  "str_id u = (case u of IdInt n \<Rightarrow> str_int n | IdStr s \<Rightarrow> s)"

text \<open>
  \<^verbatim>\<open>list(set(xs) | {u})\<close>. The iteration order of a Python set is unspecified; the model
  fixes one order, and the theorems below speak of the elements and of duplicates only.
\<close>

definition list_of_set_union :: "pyid list \<Rightarrow> pyid \<Rightarrow> pyid list" where
  "list_of_set_union xs u = remdups (xs @ [u])"

section \<open>\<^verbatim>\<open>GroupJoinData\<close>: the per-group rule store\<close>

text \<open>
  The dict of one group. The code writes six keys only, each with values of one type, so
  the dict is a record whose field is \<open>None\<close> when the key is absent; \<^verbatim>\<open>{}\<close> is
  \<open>empty_dict\<close>. A hand-edited file with other keys or other value types is outside the
  model.
\<close>

record group_dict =
  switch :: "bool option"
  accept_keywords :: "string list option"
  reject_keywords :: "string list option"
  min_level :: "int option"
  max_time :: "int option"
  block_ids :: "pyid list option"

definition empty_dict :: group_dict where
  "empty_dict = \<lparr>switch = None, accept_keywords = None, reject_keywords = None,
     min_level = None, max_time = None, block_ids = None\<rparr>"

text \<open>\<^verbatim>\<open>k in d\<close>: the key test on a group's dict.\<close>

definition has_key :: "string \<Rightarrow> group_dict \<Rightarrow> bool" where
  "has_key k d =
     ((k = ''switch'' \<and> switch d \<noteq> None) \<or>
      (k = ''accept_keywords'' \<and> accept_keywords d \<noteq> None) \<or>
      (k = ''reject_keywords'' \<and> reject_keywords d \<noteq> None) \<or>
      (k = ''min_level'' \<and> min_level d \<noteq> None) \<or>
      (k = ''max_time'' \<and> max_time d \<noteq> None) \<or>
      (k = ''block_ids'' \<and> block_ids d \<noteq> None))"

text \<open>\<^verbatim>\<open>d.update(kwargs)\<close>: the keys present in \<open>kw\<close> overwrite those of \<open>d\<close>.\<close>

definition dict_update :: "group_dict \<Rightarrow> group_dict \<Rightarrow> group_dict" where
  "dict_update d kw =
     \<lparr>switch = (case switch kw of None \<Rightarrow> switch d | Some v \<Rightarrow> Some v),
      accept_keywords = (case accept_keywords kw of None \<Rightarrow> accept_keywords d | Some v \<Rightarrow> Some v),
      reject_keywords = (case reject_keywords kw of None \<Rightarrow> reject_keywords d | Some v \<Rightarrow> Some v),
      min_level = (case min_level kw of None \<Rightarrow> min_level d | Some v \<Rightarrow> Some v),
      max_time = (case max_time kw of None \<Rightarrow> max_time d | Some v \<Rightarrow> Some v),
      block_ids = (case block_ids kw of None \<Rightarrow> block_ids d | Some v \<Rightarrow> Some v)\<rparr>"

text \<open>
  The configuration \<^verbatim>\<open>config["join_config"]\<close>, and the store: \<open>cfg\<close> is \<^verbatim>\<open>self._cfg\<close>,
  \<open>disk\<close> is the mapping the JSON file holds, \<open>writable\<close> tells whether writing the file
  succeeds (\<^verbatim>\<open>save\<close> logs a failure and goes on).
\<close>

record join_config =
  default_switch :: bool
  default_min_level :: int
  default_max_time :: int
  admin_audit :: bool
  leave_notify :: bool
  leave_block :: bool
  welcome_template :: string
  ban_time :: int

record group_join_data =
  cfg :: "string \<rightharpoonup> group_dict"
  default_cfg :: group_dict
  disk :: "string \<rightharpoonup> group_dict"
  writable :: bool

definition save :: "group_join_data \<Rightarrow> group_join_data" where
  "save d = (if writable d then d\<lparr>disk := cfg d\<rparr> else d)"

text \<open>
  \<^verbatim>\<open>__init__\<close> with \<^verbatim>\<open>_load\<close>: \<open>file\<close> is the mapping read from the path, \<open>None\<close> when
  the path does not exist or does not parse; then \<^verbatim>\<open>save\<close> writes the empty mapping.
\<close>

definition init_store ::
  "(string \<rightharpoonup> group_dict) option \<Rightarrow> bool \<Rightarrow> join_config \<Rightarrow> group_join_data" where
  "init_store file w config =
     (let dflt = \<lparr>switch = Some (default_switch config), accept_keywords = Some [],
                   reject_keywords = Some [], min_level = Some (default_min_level config),
                   max_time = Some (default_max_time config), block_ids = Some []\<rparr>
      in case file of
           None \<Rightarrow> save \<lparr>cfg = Map.empty, default_cfg = dflt, disk = Map.empty, writable = w\<rparr>
         | Some m \<Rightarrow> \<lparr>cfg = m, default_cfg = dflt, disk = m, writable = w\<rparr>)"

definition ensure_group :: "group_join_data \<Rightarrow> string \<Rightarrow> group_join_data" where
  "ensure_group d group_id =
     (if cfg d group_id = None then save (d\<lparr>cfg := (cfg d)(group_id \<mapsto> default_cfg d)\<rparr>)
      else d)"

definition get :: "group_join_data \<Rightarrow> string \<Rightarrow> group_dict" where
  "get d group_id = (case cfg d group_id of None \<Rightarrow> empty_dict | Some c \<Rightarrow> c)"

text \<open>\<^verbatim>\<open>set(group_id, **kwargs)\<close>; \<open>kw\<close> holds the keyword arguments.\<close>

definition set_fields :: "group_join_data \<Rightarrow> string \<Rightarrow> group_dict \<Rightarrow> group_join_data" where
  "set_fields d group_id kw =
     (let d1 = ensure_group d group_id;
          c = (case cfg d1 group_id of None \<Rightarrow> empty_dict | Some c \<Rightarrow> c)
      in save (d1\<lparr>cfg := (cfg d1)(group_id \<mapsto> dict_update c kw)\<rparr>))"

definition remove :: "group_join_data \<Rightarrow> string \<Rightarrow> group_join_data" where
  "remove d group_id = save (d\<lparr>cfg := (cfg d)(group_id := None)\<rparr>)"

subsection \<open>Quick read access\<close>

definition get_switch :: "group_join_data \<Rightarrow> string \<Rightarrow> bool" where
  "get_switch d group_id = (case switch (get d group_id) of None \<Rightarrow> False | Some b \<Rightarrow> b)"

definition get_accept_keywords :: "group_join_data \<Rightarrow> string \<Rightarrow> string list" where
  "get_accept_keywords d group_id =
     (case accept_keywords (get d group_id) of None \<Rightarrow> [] | Some ks \<Rightarrow> ks)"

definition get_reject_keywords :: "group_join_data \<Rightarrow> string \<Rightarrow> string list" where
  "get_reject_keywords d group_id =
     (case reject_keywords (get d group_id) of None \<Rightarrow> [] | Some ks \<Rightarrow> ks)"

definition get_min_level :: "group_join_data \<Rightarrow> string \<Rightarrow> int" where
  "get_min_level d group_id = (case min_level (get d group_id) of None \<Rightarrow> 0 | Some n \<Rightarrow> n)"

definition get_max_time :: "group_join_data \<Rightarrow> string \<Rightarrow> int" where
  "get_max_time d group_id = (case max_time (get d group_id) of None \<Rightarrow> 0 | Some n \<Rightarrow> n)"

definition get_block_ids :: "group_join_data \<Rightarrow> string \<Rightarrow> pyid list" where
  "get_block_ids d group_id = (case block_ids (get d group_id) of None \<Rightarrow> [] | Some us \<Rightarrow> us)"

subsection \<open>Quick overwrite\<close>

definition set_switch :: "group_join_data \<Rightarrow> string \<Rightarrow> bool \<Rightarrow> group_join_data" where
  "set_switch d group_id on = set_fields d group_id (empty_dict\<lparr>switch := Some on\<rparr>)"

definition set_accept_keywords :: "group_join_data \<Rightarrow> string \<Rightarrow> string list \<Rightarrow> group_join_data" where
  "set_accept_keywords d group_id kws =
     set_fields d group_id (empty_dict\<lparr>accept_keywords := Some kws\<rparr>)"

definition set_reject_keywords :: "group_join_data \<Rightarrow> string \<Rightarrow> string list \<Rightarrow> group_join_data" where
  "set_reject_keywords d group_id kws =
     set_fields d group_id (empty_dict\<lparr>reject_keywords := Some kws\<rparr>)"

definition set_min_level :: "group_join_data \<Rightarrow> string \<Rightarrow> int \<Rightarrow> group_join_data" where
  "set_min_level d group_id level = set_fields d group_id (empty_dict\<lparr>min_level := Some level\<rparr>)"

definition set_max_time :: "group_join_data \<Rightarrow> string \<Rightarrow> int \<Rightarrow> group_join_data" where
  "set_max_time d group_id tms = set_fields d group_id (empty_dict\<lparr>max_time := Some tms\<rparr>)"

definition set_block_ids :: "group_join_data \<Rightarrow> string \<Rightarrow> pyid list \<Rightarrow> group_join_data" where
  "set_block_ids d group_id uids = set_fields d group_id (empty_dict\<lparr>block_ids := Some uids\<rparr>)"

section \<open>\<^verbatim>\<open>JoinHandle\<close>\<close>

record join_handle =
  jconf :: join_config
  admin_ids :: "string list"
  db :: group_join_data
  fail :: "string \<rightharpoonup> int"

text \<open>The reasons \<^verbatim>\<open>should_approve\<close> returns, as UTF-8.\<close>

definition msg_blacklisted :: string where
  "msg_blacklisted = [CHR 0xE9, CHR 0xBB, CHR 0x91, CHR 0xE5, CHR 0x90, CHR 0x8D, CHR 0xE5,
     CHR 0x8D, CHR 0x95, CHR 0xE7, CHR 0x94, CHR 0xA8, CHR 0xE6, CHR 0x88, CHR 0xB7]"

definition msg_level_low :: string where
  "msg_level_low = [CHR 0x51, CHR 0x51, CHR 0xE7, CHR 0xAD, CHR 0x89, CHR 0xE7, CHR 0xBA,
     CHR 0xA7, CHR 0xE8, CHR 0xBF, CHR 0x87, CHR 0xE4, CHR 0xBD, CHR 0x8E, CHR 0x28]"

definition msg_reject_kw :: string where
  "msg_reject_kw = [CHR 0xE5, CHR 0x91, CHR 0xBD, CHR 0xE4, CHR 0xB8, CHR 0xAD, CHR 0xE8,
     CHR 0xBF, CHR 0x9B, CHR 0xE7, CHR 0xBE, CHR 0xA4, CHR 0xE9, CHR 0xBB, CHR 0x91, CHR 0xE8,
     CHR 0xAF, CHR 0x8D]"

definition msg_attempts_pre :: string where
  "msg_attempts_pre = [CHR 0xE8, CHR 0xBF, CHR 0x9B, CHR 0xE7, CHR 0xBE, CHR 0xA4, CHR 0xE5,
     CHR 0xB0, CHR 0x9D, CHR 0xE8, CHR 0xAF, CHR 0x95, CHR 0xE6, CHR 0xAC, CHR 0xA1, CHR 0xE6,
     CHR 0x95, CHR 0xB0, CHR 0xE5, CHR 0xB7, CHR 0xB2, CHR 0xE8, CHR 0xBE, CHR 0xBE, CHR 0xE4,
     CHR 0xB8, CHR 0x8A, CHR 0xE9, CHR 0x99, CHR 0x90, CHR 0x28]"

definition msg_attempts_suf :: string where
  "msg_attempts_suf = [CHR 0xE6, CHR 0xAC, CHR 0xA1, CHR 0x29]"

definition msg_verified :: string where
  "msg_verified = [CHR 0xE9, CHR 0xAA, CHR 0x8C, CHR 0xE8, CHR 0xAF, CHR 0x81, CHR 0xE9,
     CHR 0x80, CHR 0x9A, CHR 0xE8, CHR 0xBF, CHR 0x87]"

definition level_reason :: "int option \<Rightarrow> int \<Rightarrow> string" where
  "level_reason user_level min_lv =
     msg_level_low @ format_int user_level @ ''<'' @ str_int min_lv @ '')''"

definition attempts_reason :: "int \<Rightarrow> string" where
  "attempts_reason max_fail = msg_attempts_pre @ str_int max_fail @ msg_attempts_suf"

subsection \<open>\<^verbatim>\<open>should_approve\<close>\<close>

text \<open>
  The conditions of the blacklist, level and keyword rules, each as the source writes it;
  \<^verbatim>\<open>and\<close> evaluates its right operand only when the left one is true.
\<close>

definition blacklist_hit :: "join_handle \<Rightarrow> string \<Rightarrow> pyid \<Rightarrow> bool" where
  "blacklist_hit h group_id user_id =
     (has_key group_id (get (db h) group_id) \<and> user_id \<in> set (get_block_ids (db h) group_id))"

definition level_hit :: "join_handle \<Rightarrow> string \<Rightarrow> int option \<Rightarrow> error + bool" where
  "level_hit h group_id user_level =
     (let min_lv = get_min_level (db h) group_id
      in if 0 < min_lv \<and> truthy_int user_level then py_lt user_level min_lv else Inr False)"

definition reject_keyword_hit ::
  "python \<Rightarrow> join_handle \<Rightarrow> string \<Rightarrow> string option \<Rightarrow> error + bool" where
  "reject_keyword_hit py h group_id comment =
     (if truthy_str comment
      then err_bind (py_lower py comment) (\<lambda>lower_comment.
             Inr (list_ex (\<lambda>rk. str_in (str_lower py rk) lower_comment)
                    (get_reject_keywords (db h) group_id)))
      else Inr False)"

definition accept_keyword_hit ::
  "python \<Rightarrow> join_handle \<Rightarrow> string \<Rightarrow> string option \<Rightarrow> error + bool" where
  "accept_keyword_hit py h group_id comment =
     (if truthy_str comment \<and> group_id \<in> set (get_accept_keywords (db h) group_id)
      then err_bind (py_lower py comment) (\<lambda>lower_comment.
             Inr (list_ex (\<lambda>ak. str_in (str_lower py ak) lower_comment)
                    (get_accept_keywords (db h) group_id)))
      else Inr False)"

text \<open>
  The attempt counter: \<^verbatim>\<open>key = f"{group_id}_{user_id}"\<close> and
  \<^verbatim>\<open>self._fail[key] = self._fail.get(key, 0) + 1\<close>.
\<close>

definition fail_key :: "string \<Rightarrow> pyid \<Rightarrow> string" where
  "fail_key group_id user_id = group_id @ ''_'' @ str_id user_id"

definition fail_count :: "join_handle \<Rightarrow> string \<Rightarrow> int" where
  "fail_count h key = (case fail h key of None \<Rightarrow> 0 | Some n \<Rightarrow> n)"

definition record_attempt :: "join_handle \<Rightarrow> string \<Rightarrow> join_handle" where
  "record_attempt h key = h\<lparr>fail := (fail h)(key \<mapsto> fail_count h key + 1)\<rparr>"

text \<open>Rules 4 to 6: the attempt cap, the accept keywords, the default.\<close>

definition attempts_then_accept ::
  "python \<Rightarrow> join_handle \<Rightarrow> string \<Rightarrow> pyid \<Rightarrow> string option
     \<Rightarrow> error + ((bool \<times> string) \<times> join_handle)" where
  "attempts_then_accept py h group_id user_id comment =
     (let max_fail = get_max_time (db h) group_id;
          key = fail_key group_id user_id;
          h1 = (if 0 < max_fail then record_attempt h key else h)
      in if 0 < max_fail \<and> max_fail < fail_count h1 key
         then Inr ((False, attempts_reason max_fail), h1)
         else err_bind (accept_keyword_hit py h1 group_id comment) (\<lambda>hit.
                if hit then Inr ((True, msg_verified), h1) else Inr ((True, []), h1)))"

definition should_approve ::
  "python \<Rightarrow> join_handle \<Rightarrow> string \<Rightarrow> pyid \<Rightarrow> string option \<Rightarrow> int option
     \<Rightarrow> error + ((bool \<times> string) \<times> join_handle)" where
  "should_approve py h group_id user_id comment user_level =
     (if blacklist_hit h group_id user_id then Inr ((False, msg_blacklisted), h)
      else err_bind (level_hit h group_id user_level) (\<lambda>low.
        if low
        then Inr ((False, level_reason user_level (get_min_level (db h) group_id)), h)
        else err_bind (reject_keyword_hit py h group_id comment) (\<lambda>hit.
          if hit
          then (let ids = list_of_set_union (get_block_ids (db h) group_id) user_id
                in Inr ((False, msg_reject_kw),
                        h\<lparr>db := set_block_ids (db h) group_id ids\<rparr>))
          else attempts_then_accept py h group_id user_id comment)))"

section \<open>Commands and events\<close>

text \<open>
  What a handler sends to the platform, in order. \<open>GetStrangerInfo\<close> and \<open>GetNickname\<close>
  are the two lookups; \<open>Send\<close> is \<^verbatim>\<open>event.send(event.plain_result(text))\<close>; \<open>SendIds\<close> is
  the same for a text followed by a list of ids as an f-string field prints it;
  \<open>SetGroupBan\<close> records the attempt, whose failure the source swallows.
\<close>

datatype action =
    GetStrangerInfo pyid
  | GetNickname pyid
  | SendPrivateMsg string string
  | Send string
  | SendIds string "pyid list"
  | SetGroupAddRequest string bool string
  | SetGroupBan string pyid int

text \<open>The remaining literals of the source, as UTF-8.\<close>

definition unknown_nickname :: string where
  "unknown_nickname = [CHR 0xE6, CHR 0x9C, CHR 0xAA, CHR 0xE7, CHR 0x9F, CHR 0xA5,
     CHR 0xE6, CHR 0x98, CHR 0xB5, CHR 0xE7, CHR 0xA7, CHR 0xB0]"

definition req_head :: string where
  "req_head = [CHR 0xE3, CHR 0x80, CHR 0x90, CHR 0xE8, CHR 0xBF, CHR 0x9B, CHR 0xE7,
     CHR 0xBE, CHR 0xA4, CHR 0xE7, CHR 0x94, CHR 0xB3, CHR 0xE8, CHR 0xAF, CHR 0xB7,
     CHR 0xE3, CHR 0x80, CHR 0x91, CHR 0xE6, CHR 0x89, CHR 0xB9, CHR 0xE5, CHR 0x87,
     CHR 0x86, CHR 0x2F, CHR 0xE9, CHR 0xA9, CHR 0xB3, CHR 0xE5, CHR 0x9B, CHR 0x9E,
     CHR 0xEF, CHR 0xBC, CHR 0x9A, CHR 0x0A, CHR 0xE6, CHR 0x98, CHR 0xB5, CHR 0xE7,
     CHR 0xA7, CHR 0xB0, CHR 0xEF, CHR 0xBC, CHR 0x9A]"

definition req_qq :: string where
  "req_qq = [CHR 0x0A, CHR 0x51, CHR 0x51, CHR 0xEF, CHR 0xBC, CHR 0x9A]"

definition req_flag :: string where
  "req_flag = [CHR 0x0A, CHR 0x66, CHR 0x6C, CHR 0x61, CHR 0x67, CHR 0xEF, CHR 0xBC,
     CHR 0x9A]"

definition req_level :: string where
  "req_level = [CHR 0x0A, CHR 0xE7, CHR 0xAD, CHR 0x89, CHR 0xE7, CHR 0xBA, CHR 0xA7,
     CHR 0xEF, CHR 0xBC, CHR 0x9A]"

definition msg_auto :: string where
  "msg_auto = [CHR 0xE5, CHR 0xB7, CHR 0xB2, CHR 0xE8, CHR 0x87, CHR 0xAA, CHR 0xE5,
     CHR 0x8A, CHR 0xA8]"

definition word_approve :: string where
  "word_approve = [CHR 0xE6, CHR 0x89, CHR 0xB9, CHR 0xE5, CHR 0x87, CHR 0x86]"

definition word_reject :: string where
  "word_reject = [CHR 0xE9, CHR 0xA9, CHR 0xB3, CHR 0xE5, CHR 0x9B, CHR 0x9E]"

definition msg_left :: string where
  "msg_left = [CHR 0x29, CHR 0x20, CHR 0xE4, CHR 0xB8, CHR 0xBB, CHR 0xE5, CHR 0x8A,
     CHR 0xA8, CHR 0xE9, CHR 0x80, CHR 0x80, CHR 0xE7, CHR 0xBE, CHR 0xA4, CHR 0xE4,
     CHR 0xBA, CHR 0x86]"

definition msg_blocked :: string where
  "msg_blocked = [CHR 0xEF, CHR 0xBC, CHR 0x8C, CHR 0xE5, CHR 0xB7, CHR 0xB2, CHR 0xE6,
     CHR 0x8B, CHR 0x89, CHR 0xE8, CHR 0xBF, CHR 0x9B, CHR 0xE9, CHR 0xBB, CHR 0x91,
     CHR 0xE5, CHR 0x90, CHR 0x8D, CHR 0xE5, CHR 0x8D, CHR 0x95]"

definition msg_review_on :: string where
  "msg_review_on = [CHR 0xE5, CHR 0xB7, CHR 0xB2, CHR 0xE5, CHR 0xBC, CHR 0x80, CHR 0xE5,
     CHR 0x90, CHR 0xAF, CHR 0xE6, CHR 0x9C, CHR 0xAC, CHR 0xE7, CHR 0xBE, CHR 0xA4,
     CHR 0xE8, CHR 0xBF, CHR 0x9B, CHR 0xE7, CHR 0xBE, CHR 0xA4, CHR 0xE5, CHR 0xAE,
     CHR 0xA1, CHR 0xE6, CHR 0xA0, CHR 0xB8]"

definition msg_review_off :: string where
  "msg_review_off = [CHR 0xE5, CHR 0xB7, CHR 0xB2, CHR 0xE5, CHR 0x85, CHR 0xB3, CHR 0xE9,
     CHR 0x97, CHR 0xAD, CHR 0xE6, CHR 0x9C, CHR 0xAC, CHR 0xE7, CHR 0xBE, CHR 0xA4,
     CHR 0xE8, CHR 0xBF, CHR 0x9B, CHR 0xE7, CHR 0xBE, CHR 0xA4, CHR 0xE5, CHR 0xAE,
     CHR 0xA1, CHR 0xE6, CHR 0xA0, CHR 0xB8]"

definition msg_review_status :: string where
  "msg_review_status = [CHR 0xE6, CHR 0x9C, CHR 0xAC, CHR 0xE7, CHR 0xBE, CHR 0xA4,
     CHR 0xE8, CHR 0xBF, CHR 0x9B, CHR 0xE7, CHR 0xBE, CHR 0xA4, CHR 0xE5, CHR 0xAE,
     CHR 0xA1, CHR 0xE6, CHR 0xA0, CHR 0xB8, CHR 0xEF, CHR 0xBC, CHR 0x9A]"

definition word_on :: string where
  "word_on = [CHR 0xE5, CHR 0xBC, CHR 0x80, CHR 0xE5, CHR 0x90, CHR 0xAF]"

definition word_off :: string where
  "word_off = [CHR 0xE5, CHR 0x85, CHR 0xB3, CHR 0xE9, CHR 0x97, CHR 0xAD]"

definition mode_kai :: string where
  "mode_kai = [CHR 0xE5, CHR 0xBC, CHR 0x80]"

definition mode_guan :: string where
  "mode_guan = [CHR 0xE5, CHR 0x85, CHR 0xB3]"

definition cmd_block_ids :: string where
  "cmd_block_ids = [CHR 0xE8, CHR 0xBF, CHR 0x9B, CHR 0xE7, CHR 0xBE, CHR 0xA4, CHR 0xE9,
     CHR 0xBB, CHR 0x91, CHR 0xE5, CHR 0x90, CHR 0x8D, CHR 0xE5, CHR 0x8D, CHR 0x95]"

definition msg_block_ids :: string where
  "msg_block_ids = [CHR 0xE6, CHR 0x9C, CHR 0xAC, CHR 0xE7, CHR 0xBE, CHR 0xA4, CHR 0xE7,
     CHR 0x9A, CHR 0x84, CHR 0xE8, CHR 0xBF, CHR 0x9B, CHR 0xE7, CHR 0xBE, CHR 0xA4,
     CHR 0xE9, CHR 0xBB, CHR 0x91, CHR 0xE5, CHR 0x90, CHR 0x8D, CHR 0xE5, CHR 0x8D,
     CHR 0x95, CHR 0xEF, CHR 0xBC, CHR 0x9A]"

subsection \<open>\<^verbatim>\<open>_send_admin\<close>\<close>

definition send_admin :: "python \<Rightarrow> join_handle \<Rightarrow> string \<Rightarrow> action list" where
  "send_admin py h message =
     map (\<lambda>a. SendPrivateMsg a message) (filter (str_isdigit py) (admin_ids h))"

subsection \<open>\<^verbatim>\<open>_parse_mode\<close> and \<^verbatim>\<open>handle_join_review\<close>\<close>

text \<open>
  The subject of the \<^verbatim>\<open>match\<close> statement. The annotation admits a string, a bool and
  \<^verbatim>\<open>None\<close>; \<open>PSeq\<close> is a list or tuple, which the annotation excludes and which is here
  to show what the patterns do match.

  \<^verbatim>\<open>case "a", "b", True:\<close> is a sequence pattern: it matches a sequence other than a
  \<^verbatim>\<open>str\<close> of the same length whose elements match the literals one by one.
\<close>

datatype pyval = PStr string | PBool bool | PNone | PSeq "pyval list"

fun match_sequence :: "pyval list \<Rightarrow> pyval \<Rightarrow> bool" where
  "match_sequence pats (PSeq xs) = (xs = pats)"
| "match_sequence pats (PStr s) = False"
| "match_sequence pats (PBool b) = False"
| "match_sequence pats PNone = False"

definition parse_mode :: "pyval \<Rightarrow> bool option" where
  "parse_mode mode =
     (if match_sequence
           [PStr mode_kai, PStr word_on, PStr ''on'', PStr ''true'', PStr ''1'', PBool True] mode
      then Some True
      else if match_sequence
           [PStr mode_guan, PStr word_off, PStr ''off'', PStr ''false'', PStr ''0'', PBool False]
           mode
      then Some False
      else None)"

definition handle_join_review ::
  "join_handle \<Rightarrow> string \<Rightarrow> pyval \<Rightarrow> join_handle \<times> action list" where
  "handle_join_review h gid mode_str =
     (case parse_mode mode_str of
        Some True \<Rightarrow> (h\<lparr>db := set_switch (db h) gid True\<rparr>, [Send msg_review_on])
      | Some False \<Rightarrow> (h\<lparr>db := set_switch (db h) gid False\<rparr>, [Send msg_review_off])
      | None \<Rightarrow>
          (h, [Send (msg_review_status @ (if get_switch (db h) gid then word_on else word_off))]))"

subsection \<open>\<^verbatim>\<open>handle_reject_ids\<close>\<close>

text \<open>\<^verbatim>\<open>s.removeprefix(p)\<close>.\<close>

definition removeprefix :: "string \<Rightarrow> string \<Rightarrow> string" where
  "removeprefix s p = (if startswith s p then drop (length p) s else s)"

text \<open>The ids of the command are the words of the message: strings.\<close>

definition handle_reject_ids ::
  "python \<Rightarrow> join_handle \<Rightarrow> string \<Rightarrow> string \<Rightarrow> join_handle \<times> action list" where
  "handle_reject_ids py h gid message_str =
     (let ids = str_split py (str_strip py (removeprefix message_str cmd_block_ids))
      in if ids \<noteq> [] then (h\<lparr>db := set_block_ids (db h) gid (map IdStr ids)\<rparr>, [])
         else (h, [SendIds msg_block_ids (get_block_ids (db h) gid)]))"

subsection \<open>\<^verbatim>\<open>event_monitoring\<close>\<close>

text \<open>
  The platform as the handler sees it. \<open>get_stranger_info\<close> stands for
  \<^verbatim>\<open>client.get_stranger_info(user_id=int(user_id))\<close>, conversion included;
  \<open>get_nickname\<close> is \<^verbatim>\<open>..utils.get_nickname\<close>; \<open>format_welcome\<close> is \<^verbatim>\<open>str.format\<close> with
  the keyword \<^verbatim>\<open>nickname\<close>. Each may raise.
\<close>

record stranger_info =
  nickname :: "string option"
  qqLevel :: "int option"
  level :: "int option"

record platform =
  get_stranger_info :: "pyid \<Rightarrow> error + stranger_info"
  get_nickname :: "pyid \<Rightarrow> error + string"
  format_welcome :: "string \<Rightarrow> string \<Rightarrow> error + string"

text \<open>
  \<^verbatim>\<open>raw_message\<close>: a field is \<open>None\<close> when the key is absent. \<open>raw_group_id\<close> is the value
  after \<^verbatim>\<open>str\<close>; \<open>raw_user_id\<close> is the value as it is. An event whose \<^verbatim>\<open>raw_message\<close> is
  missing or is not a dict has \<open>raw = None\<close>.
\<close>

record raw_message =
  raw_group_id :: "string option"
  raw_user_id :: "pyid option"
  post_type :: "string option"
  request_type :: "string option"
  sub_type :: "string option"
  notice_type :: "string option"
  raw_comment :: "string option"
  flag :: "string option"

record event =
  raw :: "raw_message option"
  self_id :: string

type_synonym outcome = "error option \<times> join_handle \<times> action list"

definition join_request ::
  "python \<Rightarrow> platform \<Rightarrow> join_handle \<Rightarrow> raw_message \<Rightarrow> string \<Rightarrow> pyid \<Rightarrow> outcome" where
  "join_request py pf h r group_id user_id =
     (let comment = raw_comment r;
          flg = (case flag r of None \<Rightarrow> [] | Some f \<Rightarrow> f)
      in case get_stranger_info pf user_id of
           Inl e \<Rightarrow> (Some e, h, [GetStrangerInfo user_id])
         | Inr info \<Rightarrow>
             (let nick = (if truthy_str (nickname info)
                          then (case nickname info of None \<Rightarrow> unknown_nickname | Some n \<Rightarrow> n)
                          else unknown_nickname);
                  user_level = (if truthy_int (qqLevel info) then qqLevel info else level info);
                  reply = req_head @ nick @ req_qq @ str_id user_id @ req_flag @ flg
                    @ (case user_level of None \<Rightarrow> [] | Some l \<Rightarrow> req_level @ str_int l)
                    @ (if truthy_str comment
                       then (case comment of None \<Rightarrow> [] | Some c \<Rightarrow> CHR 0x0A # c)
                       else []);
                  notice = (if admin_audit (jconf h) then send_admin py h reply
                            else [Send reply])
              in case should_approve py h group_id user_id comment user_level of
                   Inl e \<Rightarrow> (Some e, h, GetStrangerInfo user_id # notice)
                 | Inr ((approve, reason), h') \<Rightarrow>
                     (None, h',
                      GetStrangerInfo user_id # notice @
                      [SetGroupAddRequest flg approve (if approve then [] else reason),
                       Send (msg_auto @ (if approve then word_approve else word_reject)
                             @ '': '' @ reason)])))"

definition member_left :: "platform \<Rightarrow> join_handle \<Rightarrow> string \<Rightarrow> pyid \<Rightarrow> outcome" where
  "member_left pf h group_id user_id =
     (case get_nickname pf user_id of
        Inl e \<Rightarrow> (Some e, h, [GetNickname user_id])
      | Inr nick \<Rightarrow>
          (let msg = nick @ ''('' @ str_id user_id @ msg_left
           in if leave_block (jconf h)
              then (None,
                    h\<lparr>db := set_block_ids (db h) group_id
                              (get_block_ids (db h) group_id @ [user_id])\<rparr>,
                    [GetNickname user_id, Send (msg @ msg_blocked)])
              else (None, h, [GetNickname user_id, Send msg])))"

definition member_joined :: "platform \<Rightarrow> join_handle \<Rightarrow> string \<Rightarrow> pyid \<Rightarrow> outcome" where
  "member_joined pf h group_id user_id =
     (let tmpl = welcome_template (jconf h);
          ban = (if 0 < ban_time (jconf h)
                 then [SetGroupBan group_id user_id (ban_time (jconf h))] else [])
      in if tmpl = [] then (None, h, ban)
         else case get_nickname pf user_id of
                Inl e \<Rightarrow> (Some e, h, [GetNickname user_id])
              | Inr nick \<Rightarrow>
                  (case format_welcome pf tmpl nick of
                     Inl e \<Rightarrow> (Some e, h, [GetNickname user_id])
                   | Inr welcome \<Rightarrow> (None, h, [GetNickname user_id, Send welcome] @ ban)))"

definition event_monitoring :: "python \<Rightarrow> platform \<Rightarrow> join_handle \<Rightarrow> event \<Rightarrow> outcome" where
  "event_monitoring py pf h ev =
     (case raw ev of
        None \<Rightarrow> (None, h, [])
      | Some r \<Rightarrow>
          (let group_id = (case raw_group_id r of None \<Rightarrow> [] | Some g \<Rightarrow> g)
           in if \<not> get_switch (db h) group_id then (None, h, [])
              else
                (let h1 = h\<lparr>db := ensure_group (db h) group_id\<rparr>;
                     user_id = (case raw_user_id r of None \<Rightarrow> IdStr [] | Some u \<Rightarrow> u)
                 in if post_type r = Some ''request'' \<and> request_type r = Some ''group''
                         \<and> sub_type r = Some ''add''
                    then join_request py pf h1 r group_id user_id
                    else if leave_notify (jconf h1) \<and> post_type r = Some ''notice''
                         \<and> notice_type r = Some ''group_decrease''
                         \<and> sub_type r = Some ''leave''
                    then member_left pf h1 group_id user_id
                    else if notice_type r = Some ''group_increase''
                         \<and> str_id user_id \<noteq> self_id ev
                    then member_joined pf h1 group_id user_id
                    else (None, h1, []))))"

section \<open>The string methods on ASCII text\<close>

text \<open>
  On a string of ASCII characters the four methods of \<open>python\<close> are the functions below;
  \<open>ascii_python\<close> serves to run the definitions on requests and commands whose keywords,
  comments and ids are ASCII text.
\<close>

definition ascii_lower_char :: "char \<Rightarrow> char" where
  "ascii_lower_char c =
     (case map_of (zip ''ABCDEFGHIJKLMNOPQRSTUVWXYZ'' ''abcdefghijklmnopqrstuvwxyz'') c of
        None \<Rightarrow> c
      | Some l \<Rightarrow> l)"

definition ascii_lower :: "string \<Rightarrow> string" where
  "ascii_lower s = map ascii_lower_char s"

definition ascii_isdigit :: "string \<Rightarrow> bool" where
  "ascii_isdigit s = (s \<noteq> [] \<and> list_all (\<lambda>c. c \<in> set ''0123456789'') s)"

definition ascii_space :: "char \<Rightarrow> bool" where
  "ascii_space c =
     (c \<in> set [CHR 0x20, CHR 0x09, CHR 0x0A, CHR 0x0B, CHR 0x0C, CHR 0x0D,
               CHR 0x1C, CHR 0x1D, CHR 0x1E, CHR 0x1F])"

definition ascii_strip :: "string \<Rightarrow> string" where
  "ascii_strip s = rev (dropWhile ascii_space (rev (dropWhile ascii_space s)))"

fun split_from :: "string \<Rightarrow> string \<Rightarrow> string list" where
  "split_from w [] = (if w = [] then [] else [w])"
| "split_from w (c # cs) =
     (if ascii_space c then (if w = [] then split_from [] cs else w # split_from [] cs)
      else split_from (w @ [c]) cs)"

definition ascii_split :: "string \<Rightarrow> string list" where
  "ascii_split s = split_from [] s"

definition ascii_python :: python where
  "ascii_python = \<lparr>str_lower = ascii_lower, str_isdigit = ascii_isdigit,
     str_strip = ascii_strip, str_split = ascii_split\<rparr>"

section \<open>A sample configuration\<close>

text \<open>
  A configuration, a fully populated group dict and a handle holding one group, used to
  run the definitions on concrete requests.
\<close>

definition demo_config :: join_config where
  "demo_config = \<lparr>default_switch = True, default_min_level = 5, default_max_time = 3,
     admin_audit = False, leave_notify = True, leave_block = True, welcome_template = [],
     ban_time = 0\<rparr>"

definition demo_dict :: group_dict where
  "demo_dict = \<lparr>switch = Some True, accept_keywords = Some [], reject_keywords = Some [],
     min_level = Some 0, max_time = Some 0, block_ids = Some []\<rparr>"

definition demo_handle :: "string \<Rightarrow> group_dict \<Rightarrow> join_handle" where
  "demo_handle g d =
     \<lparr>jconf = demo_config, admin_ids = [],
      db = (init_store None True demo_config)\<lparr>cfg := [g \<mapsto> d], disk := [g \<mapsto> d]\<rparr>,
      fail = Map.empty\<rparr>"

text \<open>Handles for the scenarios below, all on group \<open>10001\<close>.\<close>

definition blocked_handle :: join_handle where
  "blocked_handle =
     demo_handle ''10001''
       (demo_dict\<lparr>accept_keywords := Some [''hello''], block_ids := Some [IdStr ''42'']\<rparr>)"


definition levelled_handle :: join_handle where
  "levelled_handle = demo_handle ''10001'' (demo_dict\<lparr>min_level := Some 10\<rparr>)"

definition two_blocked :: join_handle where
  "two_blocked =
     demo_handle ''10001''
       (demo_dict\<lparr>reject_keywords := Some [''spam''],
                  block_ids := Some [IdStr ''42'', IdStr ''43'']\<rparr>)"


text \<open>
  A platform that answers every lookup, one whose profile gives the level \<open>0\<close>, a join
  request and a leave notice, with the user id an \<^verbatim>\<open>int\<close> as the platform sends it.
\<close>

definition demo_platform :: platform where
  "demo_platform =
     \<lparr>get_stranger_info =
        (\<lambda>u. Inr \<lparr>nickname = Some ''Ann'', qqLevel = Some 12, level = None\<rparr>),
      get_nickname = (\<lambda>u. Inr ''Ann''),
      format_welcome = (\<lambda>t n. Inr t)\<rparr>"

definition level_zero_platform :: platform where
  "level_zero_platform =
     \<lparr>get_stranger_info =
        (\<lambda>u. Inr \<lparr>nickname = Some ''Ann'', qqLevel = None, level = Some 0\<rparr>),
      get_nickname = (\<lambda>u. Inr ''Ann''),
      format_welcome = (\<lambda>t n. Inr t)\<rparr>"

definition join_event :: "string \<Rightarrow> pyid \<Rightarrow> string \<Rightarrow> event" where
  "join_event g u c =
     \<lparr>raw = Some \<lparr>raw_group_id = Some g, raw_user_id = Some u, post_type = Some ''request'',
                   request_type = Some ''group'', sub_type = Some ''add'', notice_type = None,
                   raw_comment = Some c, flag = Some ''f1''\<rparr>,
      self_id = ''1''\<rparr>"

definition leave_event :: "string \<Rightarrow> pyid \<Rightarrow> event" where
  "leave_event g u =
     \<lparr>raw = Some \<lparr>raw_group_id = Some g, raw_user_id = Some u, post_type = Some ''notice'',
                   request_type = None, sub_type = Some ''leave'',
                   notice_type = Some ''group_decrease'', raw_comment = None, flag = None\<rparr>,
      self_id = ''1''\<rparr>"

section \<open>Properties\<close>

subsection \<open>The built-ins\<close>

lemma startswith_iff: "startswith s p \<longleftrightarrow> (\<exists>q. s = p @ q)"
  by (induction s p rule: startswith.induct) auto

text \<open>\<open>str_in\<close> is the substring test.\<close>

lemma str_in_iff: "str_in sub s \<longleftrightarrow> (\<exists>p q. s = p @ sub @ q)"
proof (induction s)
  case Nil
  then show ?case by auto
next
  case (Cons c cs)
  show ?case
  proof
    assume "str_in sub (c # cs)"
    then consider "startswith (c # cs) sub" | "str_in sub cs" by auto
    then show "\<exists>p q. c # cs = p @ sub @ q"
    proof cases
      case 1
      then obtain q where "c # cs = sub @ q" by (auto simp: startswith_iff)
      then have "c # cs = [] @ sub @ q" by simp
      then show ?thesis by blast
    next
      case 2
      then obtain p q where "cs = p @ sub @ q" using Cons.IH by blast
      then have "c # cs = (c # p) @ sub @ q" by simp
      then show ?thesis by blast
    qed
  next
    assume "\<exists>p q. c # cs = p @ sub @ q"
    then obtain p q where pq: "c # cs = p @ sub @ q" by blast
    show "str_in sub (c # cs)"
    proof (cases p)
      case Nil
      with pq have "startswith (c # cs) sub" by (auto simp: startswith_iff)
      then show ?thesis by simp
    next
      case (Cons a p')
      with pq have "cs = p' @ sub @ q" by simp
      then have "str_in sub cs" using Cons.IH by blast
      then show ?thesis by simp
    qed
  qed
qed

lemma str_in_append: "str_in sub (pre @ sub @ suf)"
  by (auto simp add: str_in_iff)

lemma set_list_of_set_union: "set (list_of_set_union xs u) = insert u (set xs)"
  by (simp add: list_of_set_union_def)

lemma distinct_list_of_set_union: "distinct (list_of_set_union xs u)"
  by (simp add: list_of_set_union_def)

lemma length_list_of_set_union:
  assumes "distinct xs" and "u \<in> set xs"
  shows "length (list_of_set_union xs u) = length xs"
proof -
  have "card (set (list_of_set_union xs u)) = card (set xs)"
    using assms(2) by (simp add: set_list_of_set_union insert_absorb)
  then show ?thesis
    using assms(1) distinct_list_of_set_union[of xs u] by (simp add: distinct_card)
qed

subsection \<open>The store\<close>

lemma cfg_set_fields:
  "cfg (set_fields d g kw) g =
     Some (dict_update (case cfg d g of None \<Rightarrow> default_cfg d | Some c \<Rightarrow> c) kw)"
  by (auto simp add: set_fields_def Let_def save_def ensure_group_def split: option.splits)

lemma cfg_set_fields_other: "g' \<noteq> g \<Longrightarrow> cfg (set_fields d g kw) g' = cfg d g'"
  by (auto simp add: set_fields_def Let_def save_def ensure_group_def split: option.splits)

lemma get_block_ids_set_block_ids: "get_block_ids (set_block_ids d g ids) g = ids"
  by (simp add: get_block_ids_def get_def set_block_ids_def cfg_set_fields dict_update_def
      empty_dict_def)

subsection \<open>No rule raises\<close>

lemma level_hit_total: "\<exists>b. level_hit h g l = Inr b"
  by (cases l) (auto simp: level_hit_def Let_def py_lt_def truthy_int_def)

lemma reject_keyword_hit_total: "\<exists>b. reject_keyword_hit py h g c = Inr b"
  by (cases c) (auto simp: reject_keyword_hit_def py_lower_def truthy_str_def err_bind_def)

lemma accept_keyword_hit_total: "\<exists>b. accept_keyword_hit py h g c = Inr b"
  by (cases c) (auto simp: accept_keyword_hit_def py_lower_def truthy_str_def err_bind_def)

lemma attempts_then_accept_total:
  "\<exists>a r h'. attempts_then_accept py h g u c = Inr ((a, r), h')"
proof -
  obtain b where
    "accept_keyword_hit py
       (if 0 < get_max_time (db h) g then record_attempt h (fail_key g u) else h) g c = Inr b"
    using accept_keyword_hit_total by blast
  then show ?thesis
    by (auto simp: attempts_then_accept_def Let_def err_bind_def)
qed

text \<open>
  C9. \<^verbatim>\<open>should_approve\<close> returns an (approve, reason) pair for every group id, user id,
  optional comment and optional level, and never raises: the comparison of a missing
  level and the lowering of a missing comment are never reached. With the level missing
  the level rule does not fire; with the comment missing neither keyword rule fires.
\<close>

theorem should_approve_never_raises:
  "(\<exists>approve reason h'.
      should_approve py h group_id user_id comment user_level = Inr ((approve, reason), h'))
   \<and> level_hit h group_id None = Inr False
   \<and> reject_keyword_hit py h group_id None = Inr False
   \<and> accept_keyword_hit py h group_id None = Inr False"
proof -
  obtain low where l: "level_hit h group_id user_level = Inr low"
    using level_hit_total by blast
  obtain hit where r: "reject_keyword_hit py h group_id comment = Inr hit"
    using reject_keyword_hit_total by blast
  obtain a rs h' where
    t: "attempts_then_accept py h group_id user_id comment = Inr ((a, rs), h')"
    using attempts_then_accept_total by blast
  have "\<exists>approve reason h'.
      should_approve py h group_id user_id comment user_level = Inr ((approve, reason), h')"
    by (auto simp add: should_approve_def l r t err_bind_def Let_def)
  moreover have "level_hit h group_id None = Inr False"
    by (simp add: level_hit_def truthy_int_def)
  moreover have "reject_keyword_hit py h group_id None = Inr False"
    by (simp add: reject_keyword_hit_def truthy_str_def)
  moreover have "accept_keyword_hit py h group_id None = Inr False"
    by (simp add: accept_keyword_hit_def truthy_str_def)
  ultimately show ?thesis by blast
qed

subsection \<open>Evaluation on the sample handles\<close>

lemmas eval_defs =
  should_approve_def blacklist_hit_def level_hit_def reject_keyword_hit_def
  attempts_then_accept_def accept_keyword_hit_def err_bind_def truthy_int_def truthy_str_def
  py_lower_def py_lt_def get_min_level_def get_max_time_def get_block_ids_def
  get_accept_keywords_def get_reject_keywords_def get_switch_def get_def
  demo_handle_def demo_dict_def demo_config_def has_key_def Let_def
  ascii_python_def ascii_lower_def ascii_lower_char_def str_id_def

lemmas store_defs =
  set_block_ids_def set_fields_def ensure_group_def save_def dict_update_def empty_dict_def
  init_store_def

lemmas ascii_defs =
  ascii_python_def ascii_strip_def ascii_split_def ascii_space_def

subsection \<open>Rule 1: the blacklist\<close>

text \<open>
  C1. A user whose id is in the group's \<^verbatim>\<open>block_ids\<close> is to be rejected as a blacklisted
  user, whatever the comment. The source guards the membership test with
  \<^verbatim>\<open>group_id in self.db.get(group_id)\<close>, the test whether the group id is a key of the
  group's own dict. On group \<open>10001\<close> with user \<open>42\<close> blacklisted and the accept keyword
  \<open>hello\<close> in the comment, \<^verbatim>\<open>should_approve\<close> approves with the empty reason.
\<close>

theorem blacklisted_user_is_approved:
  "IdStr ''42'' \<in> set (get_block_ids (db blocked_handle) ''10001'')
   \<and> should_approve py blocked_handle ''10001'' (IdStr ''42'') (Some ''hello'') None
       = Inr ((True, []), blocked_handle)"
  by (simp add: blocked_handle_def eval_defs)

text \<open>The rule can fire only for a group whose id is the name of a config key.\<close>

lemma blacklist_hit_needs_key_name:
  "blacklist_hit h g u \<Longrightarrow>
     g \<in> {''switch'', ''accept_keywords'', ''reject_keywords'', ''min_level'', ''max_time'',
          ''block_ids''}"
  by (auto simp add: blacklist_hit_def has_key_def)

subsection \<open>Rule 3: the reject keywords\<close>

lemma reject_keyword_result:
  assumes "comment \<noteq> []"
    and "list_ex (\<lambda>rk. str_in (str_lower py rk) (str_lower py comment))
           (get_reject_keywords (db h) group_id)"
    and "\<not> blacklist_hit h group_id user_id"
    and "level_hit h group_id user_level = Inr False"
  shows "should_approve py h group_id user_id (Some comment) user_level
          = Inr ((False, msg_reject_kw),
                 h\<lparr>db := set_block_ids (db h) group_id
                           (list_of_set_union (get_block_ids (db h) group_id) user_id)\<rparr>)"
proof -
  have "reject_keyword_hit py h group_id (Some comment) = Inr True"
    using assms(1,2)
    by (simp add: reject_keyword_hit_def truthy_str_def py_lower_def err_bind_def)
  then show ?thesis
    using assms(3,4) by (simp add: should_approve_def err_bind_def Let_def)
qed



subsection \<open>Rule 4: the attempt cap\<close>










subsection \<open>Rule 2: the level threshold\<close>

lemma level_reason_notin:
  "level_reason x y \<notin> {msg_blacklisted, msg_reject_kw, attempts_reason n, msg_verified, []}"
  by (simp add: level_reason_def msg_level_low_def msg_blacklisted_def msg_reject_kw_def
      attempts_reason_def msg_attempts_pre_def msg_verified_def)

text \<open>
  C4. For a group with \<^verbatim>\<open>min_level > 0\<close>, a request whose level is known and below
  \<^verbatim>\<open>min_level\<close> is to be rejected with a reason that holds both numbers. The source
  tests \<^verbatim>\<open>min_level > 0 and user_level and user_level < min_level\<close>: the middle operand,
  there to skip \<^verbatim>\<open>None\<close>, also skips the level \<open>0\<close>. With \<^verbatim>\<open>min_level = 10\<close> and the
  known level \<open>0\<close>, \<^verbatim>\<open>should_approve\<close> approves with the empty reason.
\<close>

theorem level_zero_is_not_rejected:
  "get_min_level (db levelled_handle) ''10001'' = 10
   \<and> should_approve py levelled_handle ''10001'' (IdStr ''42'') None (Some 0)
      = Inr ((True, []), levelled_handle)"
  by (simp add: levelled_handle_def eval_defs)

text \<open>
  The level \<open>0\<close> reaches \<^verbatim>\<open>should_approve\<close> from an event: the profile has no
  \<^verbatim>\<open>qqLevel\<close> and \<^verbatim>\<open>level = 0\<close>. The notice shows the level as \<open>0\<close>, then the request
  is approved under the threshold \<open>10\<close>.
\<close>

lemma level_zero_request_is_approved:
  "event_monitoring ascii_python level_zero_platform levelled_handle
     (join_event ''10001'' (IdInt 42) ''hi'')
   = (None, levelled_handle,
      [GetStrangerInfo (IdInt 42),
       Send (req_head @ ''Ann'' @ req_qq @ ''42'' @ req_flag @ ''f1'' @ req_level @ ''0''
             @ [CHR 0x0A] @ ''hi''),
       SetGroupAddRequest ''f1'' True [],
       Send (msg_auto @ word_approve @ '': '')])"
  by (simp add: event_monitoring_def join_request_def join_event_def level_zero_platform_def
      levelled_handle_def eval_defs store_defs str_int_def str_nat.simps digit_char_def)

text \<open>
  What the rule does for the other levels: a level that is present, not \<open>0\<close> and below the
  threshold is rejected, unless the blacklist rule fired first, and the reason holds the
  decimal text of both numbers; without a level the rule does not fire and no result
  carries a level reason.
\<close>

lemma level_rule:
  "(\<not> blacklist_hit h g u \<and> 0 < get_min_level (db h) g \<and> lvl \<noteq> 0
      \<and> lvl < get_min_level (db h) g
    \<longrightarrow> should_approve py h g u c (Some lvl)
          = Inr ((False, level_reason (Some lvl) (get_min_level (db h) g)), h)
        \<and> str_in (str_int lvl) (level_reason (Some lvl) (get_min_level (db h) g))
        \<and> str_in (str_int (get_min_level (db h) g))
            (level_reason (Some lvl) (get_min_level (db h) g)))
   \<and> level_hit h g None = Inr False
   \<and> should_approve py h g u c None \<noteq> Inr ((a, level_reason x y), h')"
proof -
  have A: "should_approve py h g u c (Some lvl)
          = Inr ((False, level_reason (Some lvl) (get_min_level (db h) g)), h)"
    if "\<not> blacklist_hit h g u" "0 < get_min_level (db h) g" "lvl \<noteq> 0"
      "lvl < get_min_level (db h) g"
    using that
    by (simp add: should_approve_def level_hit_def Let_def truthy_int_def py_lt_def err_bind_def)
  have B: "str_in (str_int lvl) (level_reason (Some lvl) m)" for m
    unfolding level_reason_def format_int_def option.case by (rule str_in_append)
  have C: "str_in (str_int m) (level_reason (Some lvl) m)" for m
  proof -
    have "level_reason (Some lvl) m = (msg_level_low @ str_int lvl @ ''<'') @ str_int m @ '')''"
      by (simp add: level_reason_def format_int_def)
    then show ?thesis using str_in_append by metis
  qed
  have N: "level_hit h g None = Inr False"
    by (simp add: level_hit_def truthy_int_def)
  have D: "should_approve py h g u c None \<noteq> Inr ((a, level_reason x y), h')"
  proof
    assume s: "should_approve py h g u c None = Inr ((a, level_reason x y), h')"
    obtain hit where rk: "reject_keyword_hit py h g c = Inr hit"
      using reject_keyword_hit_total by blast
    obtain b where
      ak: "accept_keyword_hit py
             (if 0 < get_max_time (db h) g then record_attempt h (fail_key g u) else h) g c
           = Inr b"
      using accept_keyword_hit_total by blast
    from s have "level_reason x y \<in> {msg_blacklisted, msg_reject_kw,
                    attempts_reason (get_max_time (db h) g), msg_verified, []}"
      using N rk ak
      by (auto simp add: should_approve_def attempts_then_accept_def err_bind_def Let_def
          split: if_splits)
    then show False using level_reason_notin[of x y "get_max_time (db h) g"] by blast
  qed
  show ?thesis using A B C N D by blast
qed

text \<open>The spec's scenario: \<^verbatim>\<open>min_level = 10\<close> and level 5; the reason holds "5" and "10".\<close>

lemma level_five_is_rejected:
  "should_approve py levelled_handle ''10001'' (IdStr ''42'') None (Some 5)
     = Inr ((False, level_reason (Some 5) 10), levelled_handle)
   \<and> str_in ''5'' (level_reason (Some 5) 10)
   \<and> str_in ''10'' (level_reason (Some 5) 10)"
proof -
  have m: "get_min_level (db levelled_handle) ''10001'' = 10"
    by (simp add: get_min_level_def get_def levelled_handle_def demo_handle_def demo_dict_def)
  have b: "\<not> blacklist_hit levelled_handle ''10001'' (IdStr ''42'')"
    by (simp add: blacklist_hit_def get_block_ids_def get_def levelled_handle_def
        demo_handle_def demo_dict_def)
  have s5: "str_int 5 = ''5''" and s10: "str_int 10 = ''10''"
    by (simp_all add: str_int_def str_nat.simps digit_char_def)
  show ?thesis
    using level_rule[where h = levelled_handle and g = "''10001''" and u = "IdStr ''42''"
        and lvl = 5 and c = None and py = py] m b s5 s10
    by simp
qed

subsection \<open>Rules 5 and 6: the accept keywords and the default\<close>

text \<open>
  C5. A non-empty comment that contains an accept keyword, and that rules 1 to 4 let
  through, is to be approved with the reason "passed verification". The source guards the
  keyword test with \<^verbatim>\<open>group_id in self.db.get_accept_keywords(group_id)\<close>, the test
  whether the group id is one of the keywords. On group \<open>10001\<close> with accept keyword
  \<open>hello\<close> and comment \<open>Hello world\<close>, \<^verbatim>\<open>should_approve\<close> approves with the empty reason.
\<close>

theorem accept_keyword_match_gives_empty_reason:
  "list_ex (\<lambda>ak. str_in (str_lower ascii_python ak) (str_lower ascii_python ''Hello world''))
     (get_accept_keywords (db blocked_handle) ''10001'')
   \<and> should_approve py blocked_handle ''10001'' (IdStr ''7'') (Some ''Hello world'') None
       = Inr ((True, []), blocked_handle)"
  by (simp add: blocked_handle_def eval_defs)

text \<open>With the group id among the keywords the rule does fire.\<close>

lemma accept_keyword_fires_with_group_id_listed:
  "should_approve ascii_python
     (demo_handle ''10001'' (demo_dict\<lparr>accept_keywords := Some [''hello'', ''10001'']\<rparr>))
     ''10001'' (IdStr ''7'') (Some ''Hello world'') None
   = Inr ((True, msg_verified),
          demo_handle ''10001'' (demo_dict\<lparr>accept_keywords := Some [''hello'', ''10001'']\<rparr>))"
  by (simp add: eval_defs)

subsection \<open>Reading the config of an unseen group\<close>

text \<open>
  The claim C6 as the spec states it fails: in a fresh store configured with
  \<^verbatim>\<open>default_switch = True\<close>, \<^verbatim>\<open>default_min_level = 5\<close> and \<^verbatim>\<open>default_max_time = 3\<close>,
  the accessors give \<open>False\<close>, \<open>0\<close> and \<open>0\<close> for the unseen group \<open>10001\<close>, and \<^verbatim>\<open>get\<close>
  does not give the default config.
\<close>

theorem unseen_group_ignores_defaults:
  "cfg (init_store None True demo_config) ''10001'' = None
   \<and> default_switch demo_config = True
   \<and> get_switch (init_store None True demo_config) ''10001'' = False
   \<and> default_min_level demo_config = 5
   \<and> get_min_level (init_store None True demo_config) ''10001'' = 0
   \<and> default_max_time demo_config = 3
   \<and> get_max_time (init_store None True demo_config) ''10001'' = 0
   \<and> get (init_store None True demo_config) ''10001''
       \<noteq> default_cfg (init_store None True demo_config)"
  by (simp add: eval_defs store_defs)

text \<open>
  C6, amended. For a group id with no stored config, \<^verbatim>\<open>get\<close> returns the empty dict, and
  the quick-read accessors return their fixed fallbacks: \<open>False\<close> for the switch, \<open>0\<close> for
  both thresholds, the empty list for the keywords and the blacklist. \<^verbatim>\<open>get\<close> and the
  accessors are functions of the store and return no store: they modify and persist
  nothing.
\<close>

theorem unseen_group_reads:
  assumes "cfg d group_id = None"
  shows "get d group_id = empty_dict
       \<and> get_switch d group_id = False
       \<and> get_accept_keywords d group_id = []
       \<and> get_reject_keywords d group_id = []
       \<and> get_min_level d group_id = 0
       \<and> get_max_time d group_id = 0
       \<and> get_block_ids d group_id = []"
  using assms
  by (simp add: get_def get_switch_def get_accept_keywords_def get_reject_keywords_def
      get_min_level_def get_max_time_def get_block_ids_def empty_dict_def)

theorem unseen_group_reads_witness:
  "get (init_store None True demo_config) ''10001'' = empty_dict
       \<and> get_switch (init_store None True demo_config) ''10001'' = False
       \<and> get_accept_keywords (init_store None True demo_config) ''10001'' = []
       \<and> get_reject_keywords (init_store None True demo_config) ''10001'' = []
       \<and> get_min_level (init_store None True demo_config) ''10001'' = 0
       \<and> get_max_time (init_store None True demo_config) ''10001'' = 0
       \<and> get_block_ids (init_store None True demo_config) ''10001'' = []"
proof (rule unseen_group_reads)
  show "cfg (init_store None True demo_config) ''10001'' = None"
    by (simp add: init_store_def save_def)
qed

text \<open>The configured defaults are what \<^verbatim>\<open>ensure_group\<close> stores for an unseen group.\<close>

lemma ensure_group_materialises:
  "cfg d g = None \<Longrightarrow> get (ensure_group d g) g = default_cfg d"
  by (simp add: ensure_group_def save_def get_def)

text \<open>
  In \<^verbatim>\<open>event_monitoring\<close> the call of \<^verbatim>\<open>ensure_group\<close> comes after the switch test, where
  the group is stored already: there it changes nothing.
\<close>

lemma ensure_group_after_switch: "get_switch d g \<Longrightarrow> ensure_group d g = d"
  by (auto simp add: get_switch_def get_def empty_dict_def ensure_group_def
      split: option.splits)

subsection \<open>Inserting into the blacklist\<close>

text \<open>
  The claim C7 as the spec states it fails for the admin command, which overwrites the
  list with the ids it is given: on a blacklist of two users, naming one of them leaves
  one, and naming a user twice stores the id twice.
\<close>

theorem admin_command_overwrites_blacklist:
  "get_block_ids (db two_blocked) ''10001'' = [IdStr ''42'', IdStr ''43'']
   \<and> get_block_ids
        (db (fst (handle_reject_ids ascii_python two_blocked ''10001''
                    (cmd_block_ids @ '' 42''))))
        ''10001'' = [IdStr ''42'']
   \<and> get_block_ids
        (db (fst (handle_reject_ids ascii_python two_blocked ''10001''
                    (cmd_block_ids @ '' 42 42''))))
        ''10001'' = [IdStr ''42'', IdStr ''42'']"
  by (simp add: handle_reject_ids_def removeprefix_def ascii_defs
      cmd_block_ids_def two_blocked_def eval_defs store_defs)

text \<open>
  C7, amended. The insertion on a reject-keyword hit is a union: afterwards the blacklist
  holds the old ids and the requester's, each once, and when the old list had no duplicate
  and held the requester already its length is unchanged. The admin command replaces the
  blacklist by the ids of the command, that is by the words \<^verbatim>\<open>strip\<close> and \<^verbatim>\<open>split\<close>
  find after the command's name, each as a string and in their order.
\<close>

theorem blacklist_insert_semantics:
  "(comment \<noteq> []
    \<and> list_ex (\<lambda>rk. str_in (str_lower py rk) (str_lower py comment))
        (get_reject_keywords (db h) g)
    \<and> \<not> blacklist_hit h g u \<and> level_hit h g l = Inr False
    \<longrightarrow> (\<exists>h'. should_approve py h g u (Some comment) l = Inr ((False, msg_reject_kw), h')
           \<and> set (get_block_ids (db h') g) = insert u (set (get_block_ids (db h) g))
           \<and> distinct (get_block_ids (db h') g)
           \<and> (distinct (get_block_ids (db h) g) \<and> u \<in> set (get_block_ids (db h) g)
                \<longrightarrow> length (get_block_ids (db h') g) = length (get_block_ids (db h) g))))
   \<and> (str_split py (str_strip py (removeprefix m cmd_block_ids)) \<noteq> []
      \<longrightarrow> get_block_ids (db (fst (handle_reject_ids py h g m))) g
          = map IdStr (str_split py (str_strip py (removeprefix m cmd_block_ids))))"
proof (intro conjI impI)
  assume a: "comment \<noteq> []
    \<and> list_ex (\<lambda>rk. str_in (str_lower py rk) (str_lower py comment))
        (get_reject_keywords (db h) g)
    \<and> \<not> blacklist_hit h g u \<and> level_hit h g l = Inr False"
  let ?ids = "list_of_set_union (get_block_ids (db h) g) u"
  let ?h' = "h\<lparr>db := set_block_ids (db h) g ?ids\<rparr>"
  have s: "should_approve py h g u (Some comment) l = Inr ((False, msg_reject_kw), ?h')"
    using a reject_keyword_result by blast
  have "set (get_block_ids (db ?h') g) = insert u (set (get_block_ids (db h) g))"
    by (simp add: get_block_ids_set_block_ids set_list_of_set_union)
  moreover have "distinct (get_block_ids (db ?h') g)"
    by (simp add: get_block_ids_set_block_ids distinct_list_of_set_union)
  moreover have "distinct (get_block_ids (db h) g) \<and> u \<in> set (get_block_ids (db h) g)
                \<longrightarrow> length (get_block_ids (db ?h') g) = length (get_block_ids (db h) g)"
    by (simp add: get_block_ids_set_block_ids length_list_of_set_union)
  ultimately show "\<exists>h'. should_approve py h g u (Some comment) l
             = Inr ((False, msg_reject_kw), h')
           \<and> set (get_block_ids (db h') g) = insert u (set (get_block_ids (db h) g))
           \<and> distinct (get_block_ids (db h') g)
           \<and> (distinct (get_block_ids (db h) g) \<and> u \<in> set (get_block_ids (db h) g)
                \<longrightarrow> length (get_block_ids (db h') g) = length (get_block_ids (db h) g))"
    using s by blast
next
  assume "str_split py (str_strip py (removeprefix m cmd_block_ids)) \<noteq> []"
  then show "get_block_ids (db (fst (handle_reject_ids py h g m))) g
          = map IdStr (str_split py (str_strip py (removeprefix m cmd_block_ids)))"
    by (simp add: handle_reject_ids_def Let_def get_block_ids_set_block_ids)
qed

text \<open>
  User \<open>42\<close>, already on the blacklist \<open>[42, 43]\<close>, hits the reject keyword \<open>spam\<close>: the
  list keeps its two users. The command with the ids \<open>7 8\<close> stores \<open>[7, 8]\<close>.
\<close>

theorem blacklist_insert_semantics_witness:
  "(\<exists>h'. should_approve ascii_python two_blocked ''10001'' (IdStr ''42'') (Some ''SPAM here'')
            None
            = Inr ((False, msg_reject_kw), h')
         \<and> set (get_block_ids (db h') ''10001'') = {IdStr ''42'', IdStr ''43''}
         \<and> distinct (get_block_ids (db h') ''10001'')
         \<and> length (get_block_ids (db h') ''10001'') = 2)
   \<and> get_block_ids
        (db (fst (handle_reject_ids ascii_python two_blocked ''10001''
                    (cmd_block_ids @ '' 7 8''))))
        ''10001'' = [IdStr ''7'', IdStr ''8'']"
proof -
  have ids: "get_block_ids (db two_blocked) ''10001'' = [IdStr ''42'', IdStr ''43'']"
    by (simp add: get_block_ids_def get_def two_blocked_def demo_handle_def demo_dict_def)
  have ne: "''SPAM here'' \<noteq> []" by simp
  have kw: "list_ex (\<lambda>rk. str_in (str_lower ascii_python rk)
                          (str_lower ascii_python ''SPAM here''))
              (get_reject_keywords (db two_blocked) ''10001'')"
    by (simp add: get_reject_keywords_def get_def two_blocked_def demo_handle_def demo_dict_def
        ascii_python_def ascii_lower_def ascii_lower_char_def)
  have bl: "\<not> blacklist_hit two_blocked ''10001'' (IdStr ''42'')"
    by (simp add: blacklist_hit_def has_key_def)
  have lv: "level_hit two_blocked ''10001'' None = Inr False"
    by (simp add: level_hit_def truthy_int_def)
  have sp: "str_split ascii_python
              (str_strip ascii_python (removeprefix (cmd_block_ids @ '' 7 8'') cmd_block_ids))
            = [''7'', ''8'']"
    by (simp add: removeprefix_def ascii_defs cmd_block_ids_def)
  have sp': "str_split ascii_python
              (str_strip ascii_python (removeprefix (cmd_block_ids @ '' 7 8'') cmd_block_ids))
            \<noteq> []"
    by (simp add: sp)
  note t = blacklist_insert_semantics[where py = ascii_python and h = two_blocked
      and g = "''10001''" and u = "IdStr ''42''" and comment = "''SPAM here''" and l = None
      and m = "cmd_block_ids @ '' 7 8''"]
  from t[THEN conjunct1, THEN mp, OF conjI[OF ne conjI[OF kw conjI[OF bl lv]]]]
  obtain h' where
    s: "should_approve ascii_python two_blocked ''10001'' (IdStr ''42'') (Some ''SPAM here'')
          None
          = Inr ((False, msg_reject_kw), h')"
    and e: "set (get_block_ids (db h') ''10001'')
          = insert (IdStr ''42'') (set (get_block_ids (db two_blocked) ''10001''))"
    and d: "distinct (get_block_ids (db h') ''10001'')"
    and n: "distinct (get_block_ids (db two_blocked) ''10001'')
              \<and> IdStr ''42'' \<in> set (get_block_ids (db two_blocked) ''10001'')
            \<longrightarrow> length (get_block_ids (db h') ''10001'')
                = length (get_block_ids (db two_blocked) ''10001'')"
    by blast
  have e': "set (get_block_ids (db h') ''10001'') = {IdStr ''42'', IdStr ''43''}"
    unfolding e ids by simp
  have n': "length (get_block_ids (db h') ''10001'') = 2"
    using n unfolding ids by simp
  have first: "\<exists>h'. should_approve ascii_python two_blocked ''10001'' (IdStr ''42'')
            (Some ''SPAM here'') None
            = Inr ((False, msg_reject_kw), h')
         \<and> set (get_block_ids (db h') ''10001'') = {IdStr ''42'', IdStr ''43''}
         \<and> distinct (get_block_ids (db h') ''10001'')
         \<and> length (get_block_ids (db h') ''10001'') = 2"
    using s e' d n' by blast
  have second: "get_block_ids
        (db (fst (handle_reject_ids ascii_python two_blocked ''10001''
                    (cmd_block_ids @ '' 7 8''))))
        ''10001'' = [IdStr ''7'', IdStr ''8'']"
    using t[THEN conjunct2, THEN mp, OF sp'] unfolding sp by simp
  show ?thesis using first second by (rule conjI)
qed

text \<open>
  The third insertion, on a leave notice with \<^verbatim>\<open>leave_block\<close> set, appends the id
  without looking at the list: user \<open>42\<close>, already listed, is listed twice afterwards.
\<close>

lemma leave_appends_without_check:
  "get_block_ids
     (db (fst (snd (event_monitoring py demo_platform
                      (demo_handle ''10001'' (demo_dict\<lparr>block_ids := Some [IdInt 42]\<rparr>))
                      (leave_event ''10001'' (IdInt 42))))))
     ''10001''
   = [IdInt 42, IdInt 42]"
  by (simp add: event_monitoring_def member_left_def leave_event_def demo_platform_def
      eval_defs store_defs)

subsection \<open>The switch of \<^verbatim>\<open>event_monitoring\<close>\<close>

text \<open>
  C8. For an event of a group whose switch reads false, \<^verbatim>\<open>event_monitoring\<close> does
  nothing: it returns without an error, the handle is the one it was given (the store, the
  file and the attempt counters included, so \<^verbatim>\<open>should_approve\<close> has not run), and
  nothing is sent to the platform.
\<close>

theorem disabled_group_is_skipped:
  assumes "raw ev = Some r"
    and "\<not> get_switch (db h) (case raw_group_id r of None \<Rightarrow> [] | Some g \<Rightarrow> g)"
  shows "event_monitoring py pf h ev = (None, h, [])"
  using assms by (simp add: event_monitoring_def)

text \<open>A join request to group \<open>10001\<close>, whose switch is off.\<close>

theorem disabled_group_is_skipped_witness:
  "event_monitoring ascii_python demo_platform
     (demo_handle ''10001'' (demo_dict\<lparr>switch := Some False\<rparr>))
     (join_event ''10001'' (IdInt 42) ''hi'')
   = (None, demo_handle ''10001'' (demo_dict\<lparr>switch := Some False\<rparr>), [])"
proof (rule disabled_group_is_skipped)
  show "raw (join_event ''10001'' (IdInt 42) ''hi'')
      = Some \<lparr>raw_group_id = Some ''10001'', raw_user_id = Some (IdInt 42),
               post_type = Some ''request'', request_type = Some ''group'',
               sub_type = Some ''add'', notice_type = None, raw_comment = Some ''hi'',
               flag = Some ''f1''\<rparr>"
    by (simp add: join_event_def)
  show "\<not> get_switch (db (demo_handle ''10001'' (demo_dict\<lparr>switch := Some False\<rparr>)))
          (case raw_group_id \<lparr>raw_group_id = Some ''10001'', raw_user_id = Some (IdInt 42),
               post_type = Some ''request'', request_type = Some ''group'',
               sub_type = Some ''add'', notice_type = None, raw_comment = Some ''hi'',
               flag = Some ''f1''\<rparr> of None \<Rightarrow> [] | Some g \<Rightarrow> g)"
    by (simp add: get_switch_def get_def demo_handle_def demo_dict_def)
qed

text \<open>The same request to the group with its switch on is looked up, judged and answered.\<close>

lemma enabled_group_is_processed:
  "event_monitoring ascii_python demo_platform (demo_handle ''10001'' demo_dict)
     (join_event ''10001'' (IdInt 42) ''hi'')
   = (None, demo_handle ''10001'' demo_dict,
      [GetStrangerInfo (IdInt 42),
       Send (req_head @ ''Ann'' @ req_qq @ ''42'' @ req_flag @ ''f1'' @ req_level @ ''12''
             @ [CHR 0x0A] @ ''hi''),
       SetGroupAddRequest ''f1'' True [],
       Send (msg_auto @ word_approve @ '': '')])"
  by (simp add: event_monitoring_def join_request_def join_event_def demo_platform_def
      eval_defs store_defs str_int_def str_nat.simps digit_char_def)

subsection \<open>\<^verbatim>\<open>_parse_mode\<close>\<close>

text \<open>
  C10. For every string, every bool and \<^verbatim>\<open>None\<close>, \<^verbatim>\<open>_parse_mode\<close> returns \<^verbatim>\<open>None\<close>:
  its two case clauses are sequence patterns, which match none of them. So
  \<^verbatim>\<open>handle_join_review\<close> leaves the handle as it is, the switch included, and sends the
  status report.
\<close>

theorem parse_mode_returns_none:
  "parse_mode (PStr s) = None \<and> parse_mode (PBool b) = None \<and> parse_mode PNone = None
   \<and> handle_join_review h gid (PStr s)
       = (h, [Send (msg_review_status @ (if get_switch (db h) gid then word_on else word_off))])
   \<and> handle_join_review h gid (PBool b)
       = (h, [Send (msg_review_status @ (if get_switch (db h) gid then word_on else word_off))])
   \<and> handle_join_review h gid PNone
       = (h, [Send (msg_review_status @ (if get_switch (db h) gid then word_on else word_off))])"
  by (simp add: parse_mode_def handle_join_review_def)

text \<open>What the clauses do match: the six-element sequence itself.\<close>

lemma parse_mode_matches_sequence:
  "parse_mode (PSeq [PStr mode_kai, PStr word_on, PStr ''on'', PStr ''true'', PStr ''1'',
     PBool True]) = Some True"
  "parse_mode (PSeq [PStr mode_guan, PStr word_off, PStr ''off'', PStr ''false'', PStr ''0'',
     PBool False]) = Some False"
  by (simp_all add: parse_mode_def mode_kai_def mode_guan_def)

end
